theory Spec2Isabelle
  imports Complex_Main
begin

section \<open>Python values, strings and errors\<close>

text \<open>
  A Python \<open>str\<close> is a list of characters; a character stands for the code point of the
  same number, so the texts of this development range over the code points 0 to 255.
  A field of a scraped job record holds a string or \<open>None\<close>.
\<close>

datatype pyval = Str string | NoneV

datatype error =
    KeyError string
  | AttributeError string
  | TypeError string
  | IndexError string

fun py_str :: "pyval \<Rightarrow> string" where
  "py_str (Str s) = s"
| "py_str NoneV = ''None''"

fun truthy :: "pyval \<Rightarrow> bool" where
  "truthy (Str s) = (s \<noteq> [])"
| "truthy NoneV = False"

definition dict_get :: "('k \<rightharpoonup> 'v) \<Rightarrow> 'k \<Rightarrow> 'v \<Rightarrow> 'v \<times> ('k \<rightharpoonup> 'v)" where
  \<comment> \<open>\<open>d.get(k, default)\<close>: the value read, and the dictionary as the call leaves it.\<close>
  "dict_get d k dflt = (case d k of None \<Rightarrow> dflt | Some v \<Rightarrow> v, d)"

subsection \<open>Characters\<close>

definition code :: "char \<Rightarrow> nat" where
  "code c = of_char c"

definition py_lower_char :: "char \<Rightarrow> char" where
  \<comment> \<open>\<open>str.lower\<close> on one code point below 256: A-Z, and the Latin-1 capitals except U+00D7.\<close>
  "py_lower_char c =
     (let n = code c
      in if (65 \<le> n \<and> n \<le> 90) \<or> (192 \<le> n \<and> n \<le> 222 \<and> n \<noteq> 215)
         then char_of (n + 32) else c)"

definition py_lower :: "string \<Rightarrow> string" where
  "py_lower s = map py_lower_char s"

definition is_digit :: "char \<Rightarrow> bool" where
  \<comment> \<open>the regex class \<open>\d\<close>: the decimal digits below code point 256.\<close>
  "is_digit c = (48 \<le> code c \<and> code c \<le> 57)"

definition is_space :: "char \<Rightarrow> bool" where
  \<comment> \<open>\<open>str.isspace\<close> and the regex class \<open>\s\<close> below code point 256.\<close>
  "is_space c =
     (let n = code c
      in (9 \<le> n \<and> n \<le> 13) \<or> (28 \<le> n \<and> n \<le> 32) \<or> n = 133 \<or> n = 160)"

definition py_isdigit :: "string \<Rightarrow> bool" where
  \<comment> \<open>\<open>str.isdigit\<close>: non-empty, every character a digit or one of the superscripts
      U+00B2, U+00B3, U+00B9.\<close>
  "py_isdigit s =
     (s \<noteq> [] \<and> list_all (\<lambda>c. is_digit c \<or> code c = 178 \<or> code c = 179 \<or> code c = 185) s)"

subsection \<open>Substrings, splitting, replacing\<close>

fun starts_with :: "string \<Rightarrow> string \<Rightarrow> bool" where
  "starts_with [] s = True"
| "starts_with (k # ks) [] = False"
| "starts_with (k # ks) (c # cs) = (k = c \<and> starts_with ks cs)"

fun contains :: "string \<Rightarrow> string \<Rightarrow> bool" where
  \<comment> \<open>\<open>contains k s\<close> is Python's \<open>k in s\<close>.\<close>
  "contains k [] = (k = [])"
| "contains k (c # cs) = (starts_with k (c # cs) \<or> contains k cs)"

fun split_words :: "string \<Rightarrow> string \<Rightarrow> string list" where
  "split_words cur [] = (if cur = [] then [] else [cur])"
| "split_words cur (c # cs) =
     (if is_space c then (if cur = [] then split_words [] cs else cur # split_words [] cs)
      else split_words (cur @ [c]) cs)"

definition py_split :: "string \<Rightarrow> string list" where
  \<comment> \<open>\<open>s.split()\<close>: the maximal runs of non-whitespace characters.\<close>
  "py_split s = split_words [] s"

fun py_replace :: "string \<Rightarrow> string \<Rightarrow> string \<Rightarrow> string" where
  \<comment> \<open>\<open>s.replace(old, new)\<close> for a non-empty \<open>old\<close>: leftmost occurrences, not overlapping.\<close>
  "py_replace old new [] = []"
| "py_replace old new (c # cs) =
     (if old \<noteq> [] \<and> starts_with old (c # cs)
      then new @ py_replace old new (drop (length old) (c # cs))
      else c # py_replace old new cs)"

subsection \<open>Numbers and their text\<close>

definition digit_val :: "char \<Rightarrow> nat" where
  "digit_val c = code c - 48"

definition py_int :: "string \<Rightarrow> nat" where
  \<comment> \<open>\<open>int(x)\<close> on a string of decimal digits, the only strings the patterns capture.\<close>
  "py_int s = foldl (\<lambda>a c. 10 * a + digit_val c) 0 s"

definition py_float :: "string \<Rightarrow> rat" where
  \<comment> \<open>\<open>float(x)\<close> on a string matched by \<open>\d+(?:\.\d+)?\<close>, as the decimal number it
      denotes; the rounding to a binary float is not part of the model.\<close>
  "py_float s =
     (let ip = takeWhile (\<lambda>c. c \<noteq> CHR ''.'') s;
          fp = drop 1 (dropWhile (\<lambda>c. c \<noteq> CHR ''.'') s)
      in of_nat (py_int ip) + of_nat (py_int fp) / 10 ^ length fp)"

definition digit_char :: "nat \<Rightarrow> char" where
  "digit_char d = char_of (48 + d)"

fun str_nat :: "nat \<Rightarrow> string" where
  "str_nat n = (if n < 10 then [digit_char n] else str_nat (n div 10) @ [digit_char (n mod 10)])"

declare str_nat.simps [simp del]

definition str_int :: "int \<Rightarrow> string" where
  "str_int i = (if i < 0 then CHR ''-'' # str_nat (nat (- i)) else str_nat (nat i))"

datatype jnum = JInt int | JFloat rat

fun num_val :: "jnum \<Rightarrow> rat" where
  "num_val (JInt i) = of_int i"
| "num_val (JFloat x) = x"

fun num_str :: "(rat \<Rightarrow> string) \<Rightarrow> jnum \<Rightarrow> string" where
  \<comment> \<open>the text of a configured number inside an f-string; \<open>fs\<close> is the text of a float.\<close>
  "num_str fs (JInt i) = str_int i"
| "num_str fs (JFloat x) = fs x"

subsection \<open>\<open>repr\<close> of strings and of lists of strings\<close>

definition hex_digit :: "nat \<Rightarrow> char" where
  "hex_digit d = (if d < 10 then char_of (48 + d) else char_of (87 + d))"

definition repr_char :: "char \<Rightarrow> char \<Rightarrow> string" where
  "repr_char q c =
     (let n = code c
      in if c = q \<or> n = 92 then [CHR 0x5C, c]
         else if n = 9 then [CHR 0x5C, CHR ''t'']
         else if n = 10 then [CHR 0x5C, CHR ''n'']
         else if n = 13 then [CHR 0x5C, CHR ''r'']
         else if n < 32 \<or> (127 \<le> n \<and> n \<le> 160) \<or> n = 173
           then [CHR 0x5C, CHR ''x'', hex_digit (n div 16), hex_digit (n mod 16)]
         else [c])"

definition py_repr :: "string \<Rightarrow> string" where
  "py_repr s =
     (let q = (if CHR 0x27 \<in> set s \<and> CHR 0x22 \<notin> set s then CHR 0x22 else CHR 0x27)
      in q # concat (map (repr_char q) s) @ [q])"

definition quoted :: "string \<Rightarrow> string" where
  "quoted s = CHR 0x27 # s @ [CHR 0x27]"

fun join :: "string \<Rightarrow> string list \<Rightarrow> string" where
  "join sep [] = []"
| "join sep [x] = x"
| "join sep (x # y # ys) = x @ sep @ join sep (y # ys)"

definition py_repr_list :: "string list \<Rightarrow> string" where
  "py_repr_list xs = ''['' @ join '', '' (map py_repr xs) @ '']''"

fun str_error :: "error \<Rightarrow> string" where
  \<comment> \<open>\<open>str(e)\<close>: a \<open>KeyError\<close> prints the \<open>repr\<close> of its key, the others their message.\<close>
  "str_error (KeyError k) = py_repr k"
| "str_error (AttributeError m) = m"
| "str_error (TypeError m) = m"
| "str_error (IndexError m) = m"

section \<open>Regular expressions\<close>

text \<open>
  The fragment of Python's \<open>re\<close> that the patterns of the repository use: character
  classes, concatenation, the greedy \<open>?\<close>, \<open>*\<close> and \<open>+\<close>, and numbered capturing groups.
  \<open>run r (s, cs)\<close> lists what is left of \<open>s\<close> after a match of \<open>r\<close> at its start, with the
  groups captured, in the order in which a backtracking matcher tries the alternatives.
\<close>

datatype re =
    Eps
  | Sym "char \<Rightarrow> bool"
  | Cat re re
  | Opt re
  | Star re
  | Plus re
  | Grp nat re

type_synonym caps = "(nat \<times> string) list"
type_synonym mstate = "string \<times> caps"

fun star_run :: "nat \<Rightarrow> (mstate \<Rightarrow> mstate list) \<Rightarrow> mstate \<Rightarrow> mstate list" where
  "star_run 0 f st = [st]"
| "star_run (Suc n) f st =
     concat (map (star_run n f) (filter (\<lambda>st'. length (fst st') < length (fst st)) (f st))) @ [st]"

primrec run :: "re \<Rightarrow> mstate \<Rightarrow> mstate list" where
  "run Eps st = [st]"
| "run (Sym p) st = (case fst st of [] \<Rightarrow> [] | c # cs \<Rightarrow> if p c then [(cs, snd st)] else [])"
| "run (Cat r1 r2) st = concat (map (run r2) (run r1 st))"
| "run (Opt r) st = run r st @ [st]"
| "run (Star r) st = star_run (length (fst st)) (run r) st"
| "run (Plus r) st = concat (map (\<lambda>st'. star_run (length (fst st')) (run r) st') (run r st))"
| "run (Grp i r) st =
     map (\<lambda>st'. (fst st', (i, take (length (fst st) - length (fst st')) (fst st)) # snd st'))
       (run r st)"

primrec grps :: "re \<Rightarrow> nat list" where
  "grps Eps = []"
| "grps (Sym p) = []"
| "grps (Cat r1 r2) = grps r1 @ grps r2"
| "grps (Opt r) = grps r"
| "grps (Star r) = grps r"
| "grps (Plus r) = grps r"
| "grps (Grp i r) = i # grps r"

definition match_at :: "re \<Rightarrow> string \<Rightarrow> mstate option" where
  \<comment> \<open>the match the matcher finds first at the start of \<open>s\<close>.\<close>
  "match_at r s = (case run r (s, []) of [] \<Rightarrow> None | st # _ \<Rightarrow> Some st)"

definition group_text :: "caps \<Rightarrow> nat \<Rightarrow> string" where
  \<comment> \<open>a group that took no part in the match is the empty string.\<close>
  "group_text cs i = (case map_of cs i of None \<Rightarrow> [] | Some t \<Rightarrow> t)"

fun matches_from :: "re \<Rightarrow> string \<Rightarrow> (string \<times> caps) list" where
  \<comment> \<open>the matches from left to right, not overlapping; after an empty match the scan
      moves on by one character (no pattern below matches the empty string).\<close>
  "matches_from r s =
     (case match_at r s of
        None \<Rightarrow> (case s of [] \<Rightarrow> [] | c # t \<Rightarrow> matches_from r t)
      | Some (s', cs) \<Rightarrow>
          (if length s' < length s
           then (take (length s - length s') s, cs) # matches_from r s'
           else ([], cs) # (case s of [] \<Rightarrow> [] | c # t \<Rightarrow> matches_from r t)))"

declare matches_from.simps [simp del]

datatype found = One string | Tup "string list"

definition findall :: "re \<Rightarrow> string \<Rightarrow> found list" where
  \<comment> \<open>\<open>re.findall\<close>: the whole match without groups, the group with one group, the tuple
      of the groups with several.\<close>
  "findall r s =
     map (\<lambda>(m, cs). case grps r of [] \<Rightarrow> One m
                                   | [i] \<Rightarrow> One (group_text cs i)
                                   | is \<Rightarrow> Tup (map (group_text cs) is))
       (matches_from r s)"

fun re_sub :: "re \<Rightarrow> string \<Rightarrow> string \<Rightarrow> string" where
  \<comment> \<open>\<open>re.sub(r, rep, s)\<close> for a replacement without group references.\<close>
  "re_sub r rep s =
     (case match_at r s of
        None \<Rightarrow> (case s of [] \<Rightarrow> [] | c # t \<Rightarrow> c # re_sub r rep t)
      | Some (s', cs) \<Rightarrow>
          (if length s' < length s then rep @ re_sub r rep s'
           else rep @ (case s of [] \<Rightarrow> [] | c # t \<Rightarrow> c # re_sub r rep t)))"

declare re_sub.simps [simp del]

definition re_match_whole :: "re \<Rightarrow> string \<Rightarrow> bool" where
  \<comment> \<open>\<open>bool(re.match('^' r '$', s))\<close>: \<open>$\<close> holds at the end and before a final newline.\<close>
  "re_match_whole r s = list_ex (\<lambda>st. fst st = [] \<or> fst st = [CHR 0x0A]) (run r (s, []))"

definition ch :: "char \<Rightarrow> re" where
  "ch c = Sym (\<lambda>x. x = c)"

definition lit :: "string \<Rightarrow> re" where
  "lit s = foldr (\<lambda>c r. Cat (ch c) r) s Eps"

definition seq :: "re list \<Rightarrow> re" where
  "seq rs = foldr Cat rs Eps"

definition digits :: re where
  \<comment> \<open>\<open>\d+\<close>\<close>
  "digits = Plus (Sym is_digit)"

definition spaces :: re where
  \<comment> \<open>\<open>\s*\<close>\<close>
  "spaces = Star (Sym is_space)"

section \<open>The job filter (\<open>filters.py\<close>)\<close>

text \<open>
  \<open>JobFilter\<close> reads its configuration once. The keyword lists and the resume files
  stay dictionaries, since a missing key is a \<open>KeyError\<close> inside the filter; the salary
  band and the locations are attributes set by the constructor.
\<close>

record config =
  keywords_map :: "string \<rightharpoonup> string list"
  min_salary :: jnum
  max_salary :: jnum
  target_locations :: "string list"
  resume_files :: "(string \<rightharpoonup> string) option"

type_synonym job = "string \<rightharpoonup> pyval"

definition keyword_list :: "config \<Rightarrow> string \<Rightarrow> error + string list" where
  \<comment> \<open>\<open>self.keywords[k]\<close>\<close>
  "keyword_list cfg k = (case keywords_map cfg k of None \<Rightarrow> Inl (KeyError k) | Some ks \<Rightarrow> Inr ks)"

definition resume_file :: "config \<Rightarrow> string \<Rightarrow> error + string" where
  \<comment> \<open>\<open>self.config['resume_files'][k]\<close>\<close>
  "resume_file cfg k =
     (case resume_files cfg of
        None \<Rightarrow> Inl (KeyError ''resume_files'')
      | Some m \<Rightarrow> (case m k of None \<Rightarrow> Inl (KeyError k) | Some f \<Rightarrow> Inr f))"

definition job_text :: "pyval \<Rightarrow> pyval \<Rightarrow> string" where
  \<comment> \<open>\<open>f"{job_title} {job_description}".lower()\<close>\<close>
  "job_text title description = py_lower (py_str title @ '' '' @ py_str description)"

definition matching :: "string list \<Rightarrow> string \<Rightarrow> string list" where
  \<comment> \<open>the loop that collects the keywords occurring in the text, in list order.\<close>
  "matching ks text = filter (\<lambda>k. contains k text) ks"

subsection \<open>\<open>is_relevant_role\<close>\<close>

record role_result =
  rr_is_relevant :: bool
  rr_reason :: string
  rr_matched_keywords :: "string list"
  rr_fresher_friendly :: "bool option"
  rr_score :: nat

definition is_relevant_role :: "config \<Rightarrow> pyval \<Rightarrow> pyval \<Rightarrow> error + role_result" where
  "is_relevant_role cfg job_title job_description =
     (let text = job_text job_title job_description
      in case keyword_list cfg ''positive'' of
           Inl e \<Rightarrow> Inl e
         | Inr positive \<Rightarrow>
             (let matched_keywords = matching positive text;
                  positive_matches = length matched_keywords
              in if positive_matches < 2
                 then Inr \<lparr>rr_is_relevant = False,
                           rr_reason = ''Insufficient QA/Testing keywords'',
                           rr_matched_keywords = matched_keywords,
                           rr_fresher_friendly = None,
                           rr_score = 0\<rparr>
                 else case keyword_list cfg ''negative'' of
                   Inl e \<Rightarrow> Inl e
                 | Inr negative \<Rightarrow>
                     (let negative_keywords = matching negative text;
                          negative_matches = length negative_keywords
                      in case keyword_list cfg ''fresher_friendly'' of
                           Inl e \<Rightarrow> Inl e
                         | Inr fresher \<Rightarrow>
                             (let fresher_matches = length (matching fresher text)
                              in if negative_matches > 0 \<and> fresher_matches = 0
                                 then Inr \<lparr>rr_is_relevant = False,
                                           rr_reason = ''High experience requirement: ''
                                             @ py_repr_list negative_keywords,
                                           rr_matched_keywords = matched_keywords,
                                           rr_fresher_friendly = None,
                                           rr_score = 0\<rparr>
                                 else Inr \<lparr>rr_is_relevant = True,
                                           rr_reason = ''Good match with ''
                                             @ str_nat positive_matches @ '' QA keywords'',
                                           rr_matched_keywords = matched_keywords,
                                           rr_fresher_friendly = Some (fresher_matches > 0),
                                           rr_score = min 100
                                             (positive_matches * 10 + fresher_matches * 5)\<rparr>))))"

subsection \<open>\<open>extract_salary\<close>\<close>

definition number :: re where
  \<comment> \<open>\<open>\d+(?:\.\d+)?\<close>\<close>
  "number = Cat digits (Opt (Cat (ch CHR ''.'') digits))"

definition range_tail :: "re list" where
  \<comment> \<open>\<open>(number)\s*-?\s*(number)?\s*\<close>\<close>
  "range_tail = [Grp 1 number, spaces, Opt (ch CHR ''-''), spaces, Opt (Grp 2 number), spaces]"

definition salary_patterns :: "re list" where
  \<comment> \<open>The second pattern starts with the code points U+00E2, U+201A, U+0105; the last two
      lie above 255, so no character of a text matches them.\<close>
  "salary_patterns =
     [seq (range_tail @ [lit ''lpa'']),
      seq ([ch (CHR 0xE2), Sym (\<lambda>c. False), Sym (\<lambda>c. False), spaces] @ range_tail
           @ [lit ''lakh'']),
      seq (range_tail @ [lit ''lakh'', Opt (ch CHR ''s''), spaces, lit ''per'', spaces,
           lit ''annum'']),
      seq ([lit ''salary'', Opt (ch CHR '':''), spaces] @ range_tail @ [lit ''lpa'']),
      seq ([lit ''ctc'', Opt (ch CHR '':''), spaces] @ range_tail @ [lit ''lpa'']),
      seq ([lit ''package'', Opt (ch CHR '':''), spaces] @ range_tail @ [lit ''lpa'']),
      seq [Grp 1 number, spaces, lit ''to'', spaces, Grp 2 number, spaces, lit ''lpa''],
      seq [lit ''upt'', Opt (ch CHR ''o''), spaces, Grp 1 number, spaces, lit ''lpa'']]"

record salary_info =
  si_min_salary :: rat
  si_max_salary :: rat
  si_average_salary :: rat
  si_found :: bool

definition single_salary :: "rat \<Rightarrow> salary_info" where
  "single_salary x =
     \<lparr>si_min_salary = x, si_max_salary = x, si_average_salary = x, si_found = True\<rparr>"

fun salary_loop :: "re list \<Rightarrow> string \<Rightarrow> salary_info" where
  "salary_loop [] text =
     \<lparr>si_min_salary = 0, si_max_salary = 0, si_average_salary = 0, si_found = False\<rparr>"
| "salary_loop (pattern # rest) text =
     (case findall pattern text of
        [] \<Rightarrow> salary_loop rest text
      | Tup xs # _ \<Rightarrow>
          (let salaries = map py_float
                 (filter (\<lambda>x. x \<noteq> [] \<and> py_isdigit (py_replace ''.'' [] x)) xs)
           in if length salaries = 2
              then \<lparr>si_min_salary = Min (set salaries), si_max_salary = Max (set salaries),
                    si_average_salary = sum_list salaries / 2, si_found = True\<rparr>
              else if length salaries = 1 then single_salary (hd salaries)
              else salary_loop rest text)
      | One x # _ \<Rightarrow> single_salary (py_float x))"

definition extract_salary :: "string \<Rightarrow> salary_info" where
  "extract_salary text = salary_loop salary_patterns (py_lower text)"

subsection \<open>\<open>is_location_match\<close>\<close>

record location_result =
  lr_is_match :: bool
  lr_reason :: string

definition remote_indicators :: "string list" where
  "remote_indicators =
     [''remote'', ''work from home'', ''wfh'', ''anywhere'', ''virtual'',
      ''distributed'', ''home based'', ''telecommute'']"

definition is_location_match :: "config \<Rightarrow> pyval \<Rightarrow> location_result" where
  "is_location_match cfg location =
     (if \<not> truthy location
      then \<lparr>lr_is_match = True, lr_reason = ''No location specified (assuming remote)''\<rparr>
      else
        (let location_lower = py_lower (py_str location)
         in case find (\<lambda>target_loc. contains (py_lower target_loc) location_lower)
                   (target_locations cfg) of
              Some target_loc \<Rightarrow>
                \<lparr>lr_is_match = True,
                 lr_reason = ''Matches preferred location: '' @ target_loc\<rparr>
            | None \<Rightarrow>
               (case find (\<lambda>indicator. contains indicator location_lower) remote_indicators of
                  Some indicator \<Rightarrow>
                    \<lparr>lr_is_match = True, lr_reason = ''Remote work: '' @ indicator\<rparr>
                | None \<Rightarrow>
                   (case find (\<lambda>target_loc. list_ex (\<lambda>word. contains word location_lower)
                                   (py_split (py_lower target_loc)))
                           (target_locations cfg) of
                      Some target_loc \<Rightarrow>
                        \<lparr>lr_is_match = True,
                         lr_reason = ''Partial location match: '' @ target_loc\<rparr>
                    | None \<Rightarrow>
                        \<lparr>lr_is_match = False,
                         lr_reason = ''Location '' @ py_str location
                           @ '' not in preferred list''\<rparr>))))"

subsection \<open>\<open>select_resume\<close>\<close>

definition automation_keywords :: "string list" where
  "automation_keywords =
     [''selenium'', ''pytest'', ''automation framework'', ''ci/cd'', ''jenkins'',
      ''api testing'', ''python automation'', ''test framework'', ''automation engineer'',
      ''sdet'', ''technical testing'', ''test automation'', ''framework development'',
      ''scripting'', ''api automation'', ''regression automation'']"

definition entry_keywords :: "string list" where
  "entry_keywords =
     [''fresher'', ''entry level'', ''trainee'', ''graduate'', ''0-1 year'',
      ''0-2 year'', ''manual testing'', ''basic'', ''beginner'', ''new grad'',
      ''associate'', ''junior'', ''starting career'']"

definition advanced_project_keywords :: "string list" where
  "advanced_project_keywords =
     [''framework'', ''tool development'', ''python'', ''automation tool'',
      ''testing utility'', ''performance testing'', ''load testing'']"

definition automation_score :: "string \<Rightarrow> nat" where
  "automation_score text = length (matching automation_keywords text)"

definition entry_score :: "string \<Rightarrow> nat" where
  "entry_score text = length (matching entry_keywords text)"

definition advanced_score :: "string \<Rightarrow> nat" where
  "advanced_score text = length (matching advanced_project_keywords text)"

definition select_resume :: "config \<Rightarrow> pyval \<Rightarrow> pyval \<Rightarrow> error + string" where
  "select_resume cfg job_title job_description =
     (let text = job_text job_title job_description
      in if automation_score text \<ge> 3 \<or> advanced_score text \<ge> 2
         then resume_file cfg ''qa_automation''
         else if entry_score text \<ge> 2
         then resume_file cfg ''qa_entry''
         else resume_file cfg ''qa_general'')"

subsection \<open>\<open>calculate_experience_match\<close>\<close>

definition years :: "re list" where
  \<comment> \<open>\<open>\s*years?\<close>\<close>
  "years = [spaces, lit ''year'', Opt (ch CHR ''s'')]"

definition exp_patterns :: "re list" where
  "exp_patterns =
     [seq ([Grp 1 digits, Opt (ch CHR ''+'')] @ years
           @ [spaces, Opt (Cat (lit ''of'') spaces), lit ''experience'']),
      seq ([Grp 1 digits, spaces, lit ''to'', spaces, Grp 2 digits] @ years),
      seq ([lit ''minimum'', spaces, Grp 1 digits] @ years),
      seq ([lit ''at'', spaces, lit ''least'', spaces, Grp 1 digits] @ years),
      seq ([Grp 1 digits, spaces, ch CHR ''-'', spaces, Grp 2 digits] @ years)]"

record experience_result =
  er_is_match :: bool
  er_required_exp :: nat
  er_reason :: string

definition actual_experience :: rat where
  "actual_experience = 3 / 2"

definition required_of :: "found \<Rightarrow> nat" where
  \<comment> \<open>the requirement read off the first match of a pattern.\<close>
  "required_of m =
     (case m of
        Tup xs \<Rightarrow> (let exp_nums = map py_int (filter py_isdigit xs)
                   in if exp_nums \<noteq> [] then Min (set exp_nums) else 0)
      | One x \<Rightarrow> py_int x)"

definition experience_verdict :: "nat \<Rightarrow> experience_result" where
  "experience_verdict required_exp =
     (if of_nat required_exp \<le> actual_experience + 1
      then \<lparr>er_is_match = True, er_required_exp = required_exp,
            er_reason = ''Experience requirement ('' @ str_nat required_exp
              @ '' years) matches profile''\<rparr>
      else \<lparr>er_is_match = False, er_required_exp = required_exp,
            er_reason = ''Requires '' @ str_nat required_exp
              @ '' years, profile has 1.5''\<rparr>)"

fun experience_loop :: "re list \<Rightarrow> string \<Rightarrow> experience_result" where
  "experience_loop [] text =
     \<lparr>er_is_match = True, er_required_exp = 0,
      er_reason = ''No specific experience requirement mentioned''\<rparr>"
| "experience_loop (pattern # rest) text =
     (case findall pattern text of
        [] \<Rightarrow> experience_loop rest text
      | m # _ \<Rightarrow> experience_verdict (required_of m))"

definition calculate_experience_match :: "pyval \<Rightarrow> error + experience_result" where
  "calculate_experience_match job_description =
     (case job_description of
        NoneV \<Rightarrow> Inl (AttributeError (quoted ''NoneType'' @ '' object has no attribute ''
                         @ quoted ''lower''))
      | Str d \<Rightarrow> Inr (experience_loop exp_patterns (py_lower d)))"

subsection \<open>\<open>filter_job\<close>\<close>

record details =
  role_check :: "role_result option"
  location_check :: "location_result option"
  experience_check :: "experience_result option"
  salary_check :: "salary_info option"

datatype salary_lpa = Lpa rat | NotSpecified

text \<open>
  The result dictionary. The last three keys exist only in an accepted result; the key
  \<open>salary_info\<close> of \<open>details\<close> is the field \<open>salary_check\<close>.
\<close>

record filter_result =
  is_relevant :: bool
  reason :: string
  details :: details
  resume_to_use :: string
  relevance_score :: nat
  salary_lpa :: "salary_lpa option"
  is_fresher_friendly :: "bool option"
  matched_keywords :: "string list option"

definition no_details :: details where
  "no_details =
     \<lparr>role_check = None, location_check = None, experience_check = None, salary_check = None\<rparr>"

definition initial_result :: filter_result where
  "initial_result =
     \<lparr>is_relevant = False, reason = [], details = no_details, resume_to_use = [],
      relevance_score = 0, salary_lpa = None, is_fresher_friendly = None,
      matched_keywords = None\<rparr>"

definition error_result :: "error \<Rightarrow> filter_result" where
  \<comment> \<open>the dictionary built by the \<open>except\<close> branch.\<close>
  "error_result e =
     \<lparr>is_relevant = False, reason = ''Error filtering job: '' @ str_error e,
      details = no_details, resume_to_use = [], relevance_score = 0, salary_lpa = None,
      is_fresher_friendly = None, matched_keywords = None\<rparr>"

definition salary_below :: "(rat \<Rightarrow> string) \<Rightarrow> config \<Rightarrow> salary_info \<Rightarrow> string" where
  "salary_below fs cfg si =
     ''Salary '' @ fs (si_max_salary si) @ '' LPA below minimum ''
       @ num_str fs (min_salary cfg) @ '' LPA''"

definition salary_above :: "(rat \<Rightarrow> string) \<Rightarrow> salary_info \<Rightarrow> string" where
  "salary_above fs si = ''Salary '' @ fs (si_min_salary si) @ '' LPA above realistic range''"

text \<open>
  The stages of the \<open>try\<close> block after the four reads of the record. \<open>fs\<close> is Python's
  text of a float, which the two salary reasons embed; no property below depends on it.
\<close>

definition stages ::
  "(rat \<Rightarrow> string) \<Rightarrow> config \<Rightarrow> pyval \<Rightarrow> pyval \<Rightarrow> pyval \<Rightarrow> error + filter_result" where
  "stages fs cfg title description location =
     (case is_relevant_role cfg title description of
        Inl e \<Rightarrow> Inl e
      | Inr rc \<Rightarrow>
         (let r1 = initial_result\<lparr>details := no_details\<lparr>role_check := Some rc\<rparr>\<rparr>
          in if \<not> rr_is_relevant rc then Inr (r1\<lparr>reason := rr_reason rc\<rparr>)
             else
              (let lc = is_location_match cfg location;
                   r2 = r1\<lparr>details := (details r1)\<lparr>location_check := Some lc\<rparr>\<rparr>
               in if \<not> lr_is_match lc then Inr (r2\<lparr>reason := lr_reason lc\<rparr>)
                  else
                   (case calculate_experience_match description of
                      Inl e \<Rightarrow> Inl e
                    | Inr ec \<Rightarrow>
                       (let r3 = r2\<lparr>details := (details r2)\<lparr>experience_check := Some ec\<rparr>\<rparr>
                        in if \<not> er_is_match ec then Inr (r3\<lparr>reason := er_reason ec\<rparr>)
                           else
                            (let si = extract_salary (py_str title @ '' '' @ py_str description);
                                 r4 = r3\<lparr>details := (details r3)\<lparr>salary_check := Some si\<rparr>\<rparr>
                             in if si_found si \<and> si_max_salary si < num_val (min_salary cfg)
                                then Inr (r4\<lparr>reason := salary_below fs cfg si\<rparr>)
                                else if si_found si \<and> si_min_salary si > num_val (max_salary cfg)
                                then Inr (r4\<lparr>reason := salary_above fs si\<rparr>)
                                else
                                 (case select_resume cfg title description of
                                    Inl e \<Rightarrow> Inl e
                                  | Inr file \<Rightarrow>
                                      Inr (r4\<lparr>is_relevant := True,
                                              reason := ''Job matches all criteria'',
                                              resume_to_use := file,
                                              relevance_score := rr_score rc,
                                              salary_lpa := Some
                                                (if si_found si then Lpa (si_average_salary si)
                                                 else NotSpecified),
                                              is_fresher_friendly := Some
                                                (case rr_fresher_friendly rc of
                                                   None \<Rightarrow> False | Some b \<Rightarrow> b),
                                              matched_keywords := Some
                                                (rr_matched_keywords rc)\<rparr>))))))))"

definition filter_job_try ::
  "(rat \<Rightarrow> string) \<Rightarrow> config \<Rightarrow> job \<Rightarrow> (error + filter_result) \<times> job" where
  \<comment> \<open>the \<open>try\<close> block: its outcome, and the record as the block leaves it.\<close>
  "filter_job_try fs cfg job_data =
     (let (title, jd1) = dict_get job_data ''title'' (Str []);
          (description, jd2) = dict_get jd1 ''description'' (Str []);
          (location, jd3) = dict_get jd2 ''location'' (Str []);
          (company, jd4) = dict_get jd3 ''company'' (Str [])
      in (stages fs cfg title description location, jd4))"

definition filter_job :: "(rat \<Rightarrow> string) \<Rightarrow> config \<Rightarrow> job \<Rightarrow> filter_result \<times> job" where
  \<comment> \<open>the result returned, and the caller's record after the call.\<close>
  "filter_job fs cfg job_data =
     (case filter_job_try fs cfg job_data of
        (Inl e, jd) \<Rightarrow> (error_result e, jd)
      | (Inr r, jd) \<Rightarrow> (r, jd))"

definition field :: "job \<Rightarrow> string \<Rightarrow> pyval" where
  \<comment> \<open>\<open>job_data.get(k, '')\<close>\<close>
  "field job_data k = fst (dict_get job_data k (Str []))"

section \<open>The contact extractor (\<open>emailer.py\<close>)\<close>

text \<open>
  The patterns of this file write \<open>\\b\<close>, \<open>\\s\<close> and \<open>\\.\<close> inside raw strings. To \<open>re\<close>
  that is a backslash character followed by \<open>b\<close>, by \<open>s\<close>, or by any character but a newline;
  the patterns below are these.
\<close>

definition backslash :: char where
  "backslash = CHR 0x5C"

definition is_alpha :: "char \<Rightarrow> bool" where
  \<comment> \<open>\<open>[A-Za-z]\<close>\<close>
  "is_alpha c = (let n = code c in (65 \<le> n \<and> n \<le> 90) \<or> (97 \<le> n \<and> n \<le> 122))"

definition is_alnum :: "char \<Rightarrow> bool" where
  \<comment> \<open>\<open>[A-Za-z0-9]\<close>\<close>
  "is_alnum c = (is_alpha c \<or> is_digit c)"

definition py_strip :: "string \<Rightarrow> string" where
  "py_strip s = rev (dropWhile is_space (rev (dropWhile is_space s)))"

definition is_cased :: "char \<Rightarrow> bool" where
  "is_cased c =
     (let n = code c
      in is_alpha c \<or> n = 170 \<or> n = 181 \<or> n = 186 \<or> (192 \<le> n \<and> n \<noteq> 215 \<and> n \<noteq> 247))"

definition py_title_char :: "char \<Rightarrow> string" where
  \<comment> \<open>the title-case form of one character; for U+00B5 and U+00FF it lies above code
      point 255 and the character is kept.\<close>
  "py_title_char c =
     (let n = code c
      in if (97 \<le> n \<and> n \<le> 122) \<or> (224 \<le> n \<and> n \<le> 254 \<and> n \<noteq> 247) then [char_of (n - 32)]
         else if n = 223 then ''Ss''
         else [c])"

fun title_from :: "bool \<Rightarrow> string \<Rightarrow> string" where
  "title_from previous_is_cased [] = []"
| "title_from previous_is_cased (c # cs) =
     (if previous_is_cased then [py_lower_char c] else py_title_char c)
       @ title_from (is_cased c) cs"

definition py_title :: "string \<Rightarrow> string" where
  "py_title s = title_from False s"

subsection \<open>\<open>clean_company_name\<close> and \<open>generate_company_domains\<close>\<close>

definition suffixes :: "string list" where
  "suffixes =
     [''pvt ltd'', ''private limited'', ''ltd'', ''limited'', ''inc'', ''corporation'',
      ''corp'', ''company'', ''technologies'', ''technology'', ''tech'', ''solutions'',
      ''solution'', ''systems'', ''system'', ''services'', ''service'', ''enterprises'',
      ''enterprise'', ''group'', ''pvt'', ''llp'', ''llc'']"

definition suffix_pattern :: "string \<Rightarrow> re" where
  \<comment> \<open>\<open>rf'\\b{suffix}\\b'\<close>\<close>
  "suffix_pattern suffix = lit ([backslash, CHR ''b''] @ suffix @ [backslash, CHR ''b''])"

definition special_chars :: re where
  \<comment> \<open>\<open>r'[^a-zA-Z0-9\\s]'\<close>\<close>
  "special_chars = Sym (\<lambda>c. \<not> (is_alnum c \<or> c = backslash \<or> c = CHR ''s''))"

definition backslash_s :: re where
  \<comment> \<open>\<open>r'\\s+'\<close>\<close>
  "backslash_s = Cat (ch backslash) (Plus (ch CHR ''s''))"

definition clean_company_name :: "string \<Rightarrow> string" where
  "clean_company_name company_name =
     (let clean_name = py_lower company_name;
          clean_name = foldl (\<lambda>n suffix. re_sub (suffix_pattern suffix) [] n) clean_name suffixes;
          clean_name = re_sub special_chars [] clean_name
      in py_strip (re_sub backslash_s [] clean_name))"

definition generate_company_domains :: "string \<Rightarrow> string list" where
  "generate_company_domains clean_company =
     (if clean_company = [] then []
      else
       (let domains = [clean_company @ ''.com'', clean_company @ ''.in'',
                       clean_company @ ''.co.in'', clean_company @ ''.org''];
            domains = (if length clean_company > 8
                       then domains @ [take 8 clean_company @ ''.com'',
                                       take 8 clean_company @ ''.in'']
                       else domains);
            variations = [py_replace ''technologies'' ''tech'' clean_company,
                          py_replace ''solutions'' ''sol'' clean_company,
                          py_replace ''systems'' ''sys'' clean_company];
            domains = foldl (\<lambda>ds variation.
                               if variation \<noteq> clean_company
                               then ds @ [variation @ ''.com'', variation @ ''.in'']
                               else ds) domains variations
        in take 5 domains))"

subsection \<open>\<open>extract_emails_from_text\<close> and \<open>is_valid_email\<close>\<close>

definition local_part :: re where
  \<comment> \<open>\<open>[A-Za-z0-9._%+-]+\<close>\<close>
  "local_part = Plus (Sym (\<lambda>c. is_alnum c \<or> c \<in> set ''._%+-''))"

definition domain_part :: re where
  \<comment> \<open>\<open>[A-Za-z0-9.-]+\<close>\<close>
  "domain_part = Plus (Sym (\<lambda>c. is_alnum c \<or> c \<in> set ''.-''))"

definition tld :: re where
  \<comment> \<open>\<open>[A-Z|a-z]{2,}\<close>\<close>
  "tld = Cat (Sym (\<lambda>c. is_alpha c \<or> c = CHR ''|''))
             (Plus (Sym (\<lambda>c. is_alpha c \<or> c = CHR ''|'')))"

definition email_tail :: "re list" where
  \<comment> \<open>\<open>@[A-Za-z0-9.-]+\\.[A-Z|a-z]{2,}\<close>\<close>
  "email_tail = [ch CHR ''@'', domain_part, ch backslash, Sym (\<lambda>c. c \<noteq> CHR 0x0A), tld]"

definition email_pattern :: re where
  "email_pattern =
     seq ([ch backslash, ch CHR ''b'', local_part] @ email_tail @ [ch backslash, ch CHR ''b''])"

definition valid_pattern :: re where
  \<comment> \<open>the pattern of \<open>is_valid_email\<close> between \<open>^\<close> and \<open>$\<close>.\<close>
  "valid_pattern = seq (local_part # email_tail)"

definition findall_texts :: "re \<Rightarrow> string \<Rightarrow> string list" where
  \<comment> \<open>\<open>re.findall\<close> for a pattern without groups: the matched texts.\<close>
  "findall_texts r s = map fst (matches_from r s)"

definition avoid_patterns :: "string list" where
  "avoid_patterns = [''noreply'', ''no-reply'', ''donotreply'', ''admin'', ''support'']"

definition extract_emails_from_text :: "pyval \<Rightarrow> error + string list" where
  \<comment> \<open>\<open>re.findall\<close> raises a \<open>TypeError\<close> on \<open>None\<close>; its message is only logged.\<close>
  "extract_emails_from_text text =
     (case text of
        NoneV \<Rightarrow> Inl (TypeError ''expected string or bytes-like object'')
      | Str t \<Rightarrow>
          Inr (filter (\<lambda>email. \<not> list_ex (\<lambda>pattern. contains pattern (py_lower email))
                                    avoid_patterns)
                 (findall_texts email_pattern t)))"

definition is_valid_email :: "string \<Rightarrow> bool" where
  "is_valid_email email = re_match_whole valid_pattern email"

subsection \<open>\<open>extract_hr_contacts\<close>\<close>

record contact =
  email :: string
  name :: string
  company :: string
  source :: string
  job_title :: pyval
  confidence :: string

definition hr_patterns :: "string \<Rightarrow> string list" where
  "hr_patterns domain =
     map (\<lambda>p. p @ ''@'' @ domain)
       [''hr'', ''careers'', ''jobs'', ''recruitment'', ''hiring'', ''talent'']"

text \<open>
  The \<open>try\<close> block for a record whose company is not empty: the contacts gathered when the
  block ends, and the exception that ended it, if one did (it is logged and dropped).
\<close>

definition gather_contacts :: "job \<Rightarrow> string \<Rightarrow> contact list \<times> error option" where
  "gather_contacts job_data c =
     (let possible_domains = generate_company_domains (clean_company_name c);
          contacts1 = concat (map (\<lambda>domain. map (\<lambda>e.
              \<lparr>email = e, name = ''HR Team'', company = c, source = ''domain_pattern'',
               job_title = field job_data ''title'', confidence = ''medium''\<rparr>)
              (hr_patterns domain)) possible_domains)
      in case extract_emails_from_text (field job_data ''description'') of
           Inl err \<Rightarrow> (contacts1, Some err)
         | Inr extracted_emails \<Rightarrow>
            (let contacts2 = contacts1 @ map (\<lambda>e.
                   \<lparr>email = e, name = ''Contact Person'', company = c,
                    source = ''job_description'', job_title = field job_data ''title'',
                    confidence = ''high''\<rparr>) extracted_emails
             in if list_ex (\<lambda>keyword. contains keyword (py_lower c))
                     [''tech'', ''solutions'', ''systems'', ''software'']
                then
                 (case field job_data ''location'' of
                    NoneV \<Rightarrow> (contacts2, Some (AttributeError
                        (quoted ''NoneType'' @ '' object has no attribute '' @ quoted ''lower'')))
                  | Str l \<Rightarrow>
                     (let location = py_lower l
                      in if contains ''hyderabad'' location \<or> contains ''bangalore'' location
                         then
                          (case py_split location of
                             [] \<Rightarrow> (contacts2, Some (IndexError ''list index out of range''))
                           | w # _ \<Rightarrow>
                              (contacts2 @
                                 [\<lparr>email = ''hr.'' @ w @ ''@''
                                     @ (case possible_domains of
                                          [] \<Rightarrow> ''company.com'' | d # _ \<Rightarrow> d),
                                   name = ''HR Team - '' @ py_title location,
                                   company = c, source = ''location_pattern'',
                                   job_title = field job_data ''title'',
                                   confidence = ''low''\<rparr>], None))
                         else (contacts2, None)))
                else (contacts2, None)))"

fun unique_loop :: "contact list \<Rightarrow> string set \<Rightarrow> contact list \<Rightarrow> contact list" where
  \<comment> \<open>the loop that removes duplicates and stops at three contacts.\<close>
  "unique_loop [] seen_emails unique_contacts = unique_contacts"
| "unique_loop (c # rest) seen_emails unique_contacts =
     (if email c \<notin> seen_emails \<and> is_valid_email (email c)
      then (if length (unique_contacts @ [c]) \<ge> 3 then unique_contacts @ [c]
            else unique_loop rest (insert (email c) seen_emails) (unique_contacts @ [c]))
      else unique_loop rest seen_emails unique_contacts)"

definition extract_hr_contacts :: "job \<Rightarrow> contact list" where
  "extract_hr_contacts job_data =
     (let c = field job_data ''company''
      in if \<not> truthy c then []
         else unique_loop (fst (gather_contacts job_data (py_str c))) {} [])"

section \<open>Example records\<close>

definition example_config :: config where
  "example_config =
     \<lparr>keywords_map = [''positive'' \<mapsto> [''qa'', ''test''],
                       ''negative'' \<mapsto> [''senior''],
                       ''fresher_friendly'' \<mapsto> [''fresher'']],
      min_salary = JInt 4, max_salary = JInt 15,
      target_locations = [''Hyderabad'', ''New Delhi''],
      resume_files = Some [''qa_automation'' \<mapsto> ''Mani_QA1.pdf'',
                           ''qa_entry'' \<mapsto> ''Mani_QA3.pdf'',
                           ''qa_general'' \<mapsto> ''Mani_QA2.pdf'']\<rparr>"

definition one_decimal :: "rat \<Rightarrow> string" where
  \<comment> \<open>the text of a non-negative float with one decimal digit, as in \<open>2.0\<close> or \<open>6.5\<close>.\<close>
  "one_decimal x = str_int \<lfloor>x\<rfloor> @ ''.'' @ str_int \<lfloor>(x - of_int \<lfloor>x\<rfloor>) * 10\<rfloor>"

definition one_keyword_job :: job where
  "one_keyword_job = [''title'' \<mapsto> Str ''QA Lead'', ''location'' \<mapsto> Str ''Hyderabad'']"

definition senior_job :: job where
  "senior_job = [''title'' \<mapsto> Str ''Senior QA Test Lead'']"

definition senior_fresher_job :: job where
  "senior_fresher_job = [''title'' \<mapsto> Str ''Senior QA Test'', ''description'' \<mapsto> Str ''fresher'']"

definition low_salary_job :: job where
  "low_salary_job = [''title'' \<mapsto> Str ''QA Test'', ''description'' \<mapsto> Str ''2 LPA'']"

definition no_description_job :: job where
  "no_description_job = [''title'' \<mapsto> Str ''QA Test'', ''description'' \<mapsto> NoneV]"




section \<open>Properties of \<open>filter_job\<close>\<close>

lemma filter_job_fst:
  "fst (filter_job fs cfg job_data) =
     (case stages fs cfg (field job_data ''title'') (field job_data ''description'')
             (field job_data ''location'') of
        Inl e \<Rightarrow> error_result e | Inr r \<Rightarrow> r)"
  by (simp add: filter_job_def filter_job_try_def field_def dict_get_def split: sum.splits)

lemma stages_role_rejected:
  assumes "case is_relevant_role cfg t d of Inl e \<Rightarrow> True | Inr rc \<Rightarrow> \<not> rr_is_relevant rc"
  shows "case stages fs cfg t d l of Inl e \<Rightarrow> True | Inr r \<Rightarrow> \<not> is_relevant r"
proof (cases "is_relevant_role cfg t d")
  case (Inl e)
  then show ?thesis by (simp add: stages_def)
next
  case (Inr rc)
  with assms have "\<not> rr_is_relevant rc" by simp
  with Inr show ?thesis by (simp add: stages_def initial_result_def)
qed

text \<open>
  C1. A record in which fewer than two entries of the configured positive keyword list
  occur in the lower-cased title and description is rejected by \<open>filter_job\<close>, with the
  reason of the role check, whatever its other fields hold.
\<close>

theorem insufficient_keywords:
  assumes "keywords_map cfg ''positive'' = Some ks"
    and "length (filter (\<lambda>k. contains k
           (job_text (field job_data ''title'') (field job_data ''description''))) ks) < 2"
  shows "\<not> is_relevant (fst (filter_job fs cfg job_data))
       \<and> reason (fst (filter_job fs cfg job_data)) = ''Insufficient QA/Testing keywords''"
  using assms
  by (simp add: filter_job_fst stages_def is_relevant_role_def keyword_list_def matching_def
        initial_result_def Let_def)

theorem insufficient_keywords_witness:
  "keywords_map example_config ''positive'' = Some [''qa'', ''test'']
   \<and> length (filter (\<lambda>k. contains k (job_text (field one_keyword_job ''title'')
         (field one_keyword_job ''description''))) [''qa'', ''test'']) < 2
   \<and> \<not> is_relevant (fst (filter_job one_decimal example_config one_keyword_job))
   \<and> reason (fst (filter_job one_decimal example_config one_keyword_job))
       = ''Insufficient QA/Testing keywords''"
proof -
  have h1: "keywords_map example_config ''positive'' = Some [''qa'', ''test'']"
    by (simp add: example_config_def)
  have h2: "length (filter (\<lambda>k. contains k (job_text (field one_keyword_job ''title'')
         (field one_keyword_job ''description''))) [''qa'', ''test'']) < 2"
    by code_simp
  from insufficient_keywords [OF h1 h2, of one_decimal] h1 h2 show ?thesis
    by (intro conjI) (erule conjunct1 conjunct2 | assumption)+
qed

lemma role_rejects_negative:
  assumes "keywords_map cfg ''negative'' = Some neg"
    and "keywords_map cfg ''fresher_friendly'' = Some fr"
    and "filter (\<lambda>k. contains k (job_text t d)) neg \<noteq> []"
    and "filter (\<lambda>k. contains k (job_text t d)) fr = []"
  shows "case is_relevant_role cfg t d of Inl e \<Rightarrow> True | Inr rc \<Rightarrow> \<not> rr_is_relevant rc"
  using assms
  by (simp add: is_relevant_role_def keyword_list_def matching_def Let_def split: option.splits)

lemma role_accepts_fresher:
  assumes "keywords_map cfg ''positive'' = Some pos"
    and "keywords_map cfg ''negative'' = Some neg"
    and "keywords_map cfg ''fresher_friendly'' = Some fr"
    and "2 \<le> length (filter (\<lambda>k. contains k (job_text t d)) pos)"
    and "filter (\<lambda>k. contains k (job_text t d)) fr \<noteq> []"
  shows "\<exists>rc. is_relevant_role cfg t d = Inr rc \<and> rr_is_relevant rc"
  using assms
  by (simp add: is_relevant_role_def keyword_list_def matching_def Let_def)

text \<open>
  C2. With the three keyword lists configured: a record whose text holds a negative
  keyword and no fresher-friendly keyword is rejected by \<open>filter_job\<close>, however many
  positive keywords it holds; and a record with at least two positive keywords and a
  fresher-friendly keyword passes the role check, whatever negative keywords it holds.
\<close>

theorem negative_keywords_override:
  assumes "keywords_map cfg ''positive'' = Some pos"
    and "keywords_map cfg ''negative'' = Some neg"
    and "keywords_map cfg ''fresher_friendly'' = Some fr"
    and "text = job_text (field job_data ''title'') (field job_data ''description'')"
  shows "(filter (\<lambda>k. contains k text) neg \<noteq> [] \<and> filter (\<lambda>k. contains k text) fr = []
            \<longrightarrow> \<not> is_relevant (fst (filter_job fs cfg job_data)))
       \<and> (2 \<le> length (filter (\<lambda>k. contains k text) pos)
            \<and> filter (\<lambda>k. contains k text) fr \<noteq> []
            \<longrightarrow> (\<exists>rc. is_relevant_role cfg (field job_data ''title'')
                         (field job_data ''description'') = Inr rc \<and> rr_is_relevant rc))"
proof (intro conjI impI)
  assume "filter (\<lambda>k. contains k text) neg \<noteq> [] \<and> filter (\<lambda>k. contains k text) fr = []"
  with assms have "case is_relevant_role cfg (field job_data ''title'')
      (field job_data ''description'') of Inl e \<Rightarrow> True | Inr rc \<Rightarrow> \<not> rr_is_relevant rc"
    by (intro role_rejects_negative) auto
  from stages_role_rejected [OF this, of fs "field job_data ''location''"]
  show "\<not> is_relevant (fst (filter_job fs cfg job_data))"
    by (simp add: filter_job_fst error_result_def split: sum.splits)
next
  assume "2 \<le> length (filter (\<lambda>k. contains k text) pos)
      \<and> filter (\<lambda>k. contains k text) fr \<noteq> []"
  with assms show "\<exists>rc. is_relevant_role cfg (field job_data ''title'')
      (field job_data ''description'') = Inr rc \<and> rr_is_relevant rc"
    by (intro role_accepts_fresher) auto
qed

theorem negative_keywords_override_witness:
  "(filter (\<lambda>k. contains k ''senior qa test lead '') [''senior''] \<noteq> []
      \<and> filter (\<lambda>k. contains k ''senior qa test lead '') [''fresher''] = []
      \<and> 2 \<le> length (filter (\<lambda>k. contains k ''senior qa test lead '') [''qa'', ''test''])
      \<and> \<not> is_relevant (fst (filter_job one_decimal example_config senior_job)))
   \<and> (filter (\<lambda>k. contains k ''senior qa test fresher'') [''senior''] \<noteq> []
      \<and> 2 \<le> length (filter (\<lambda>k. contains k ''senior qa test fresher'') [''qa'', ''test''])
      \<and> filter (\<lambda>k. contains k ''senior qa test fresher'') [''fresher''] \<noteq> []
      \<and> (\<exists>rc. is_relevant_role example_config (field senior_fresher_job ''title'')
               (field senior_fresher_job ''description'') = Inr rc \<and> rr_is_relevant rc))"
proof -
  have kp: "keywords_map example_config ''positive'' = Some [''qa'', ''test'']"
    and kn: "keywords_map example_config ''negative'' = Some [''senior'']"
    and kf: "keywords_map example_config ''fresher_friendly'' = Some [''fresher'']"
    by (simp_all add: example_config_def)
  have t1: "''senior qa test lead '' =
      job_text (field senior_job ''title'') (field senior_job ''description'')"
    by code_simp
  have t2: "''senior qa test fresher'' =
      job_text (field senior_fresher_job ''title'') (field senior_fresher_job ''description'')"
    by code_simp
  have a1: "filter (\<lambda>k. contains k ''senior qa test lead '') [''senior''] \<noteq> []"
    and a2: "filter (\<lambda>k. contains k ''senior qa test lead '') [''fresher''] = []"
    and a3: "2 \<le> length (filter (\<lambda>k. contains k ''senior qa test lead '') [''qa'', ''test''])"
    and b1: "filter (\<lambda>k. contains k ''senior qa test fresher'') [''senior''] \<noteq> []"
    and b2: "2 \<le> length (filter (\<lambda>k. contains k ''senior qa test fresher'') [''qa'', ''test''])"
    and b3: "filter (\<lambda>k. contains k ''senior qa test fresher'') [''fresher''] \<noteq> []"
    by simp_all
  from negative_keywords_override [OF kp kn kf t1, of one_decimal] a1 a2
  have c1: "\<not> is_relevant (fst (filter_job one_decimal example_config senior_job))"
    by blast
  from negative_keywords_override [OF kp kn kf t2, of one_decimal] b2 b3
  have c2: "\<exists>rc. is_relevant_role example_config (field senior_fresher_job ''title'')
               (field senior_fresher_job ''description'') = Inr rc \<and> rr_is_relevant rc"
    by blast
  from a1 a2 a3 b1 b2 b3 c1 c2 show ?thesis by blast
qed

lemma stages_salary:
  assumes "case is_relevant_role cfg title description of
             Inl e \<Rightarrow> False | Inr rc \<Rightarrow> rr_is_relevant rc"
    and "lr_is_match (is_location_match cfg location)"
    and "case calculate_experience_match description of
           Inl e \<Rightarrow> False | Inr ec \<Rightarrow> er_is_match ec"
    and "si = extract_salary (py_str title @ '' '' @ py_str description)"
    and "res = (case stages fs cfg title description location of
                  Inl e \<Rightarrow> error_result e | Inr r \<Rightarrow> r)"
  shows "(si_found si \<and> si_max_salary si < num_val (min_salary cfg)
            \<longrightarrow> \<not> is_relevant res \<and> reason res = salary_below fs cfg si)
       \<and> (si_found si \<and> \<not> si_max_salary si < num_val (min_salary cfg)
            \<and> si_min_salary si > num_val (max_salary cfg)
            \<longrightarrow> \<not> is_relevant res \<and> reason res = salary_above fs si)
       \<and> (\<not> (si_found si \<and> (si_max_salary si < num_val (min_salary cfg)
                             \<or> si_min_salary si > num_val (max_salary cfg)))
            \<longrightarrow> (case select_resume cfg title description of
                   Inl e \<Rightarrow> res = error_result e
                 | Inr f \<Rightarrow> is_relevant res \<and> resume_to_use res = f
                       \<and> reason res = ''Job matches all criteria''))"
proof -
  from assms(1) obtain rc where rc: "is_relevant_role cfg title description = Inr rc"
    "rr_is_relevant rc"
    by (cases "is_relevant_role cfg title description") auto
  from assms(3) obtain ec where ec: "calculate_experience_match description = Inr ec"
    "er_is_match ec"
    by (cases "calculate_experience_match description") auto
  show ?thesis
  proof (cases "select_resume cfg title description")
    case (Inl e)
    with rc ec assms(2,4,5) show ?thesis
      by (simp add: stages_def Let_def initial_result_def)
  next
    case (Inr f)
    with rc ec assms(2,4,5) show ?thesis
      by (simp add: stages_def Let_def initial_result_def)
  qed
qed

text \<open>
  C3. For a record that passes the role, location and experience checks, \<open>filter_job\<close>
  returns a rejection carrying one of the two salary reasons exactly when the salary
  extraction found a salary and its maximum is below the configured minimum or its
  minimum is above the configured maximum; when no salary was found, the result is never
  such a rejection.
\<close>

theorem salary_stage:
  assumes "title = field job_data ''title''"
    and "description = field job_data ''description''"
    and "case is_relevant_role cfg title description of
           Inl e \<Rightarrow> False | Inr rc \<Rightarrow> rr_is_relevant rc"
    and "lr_is_match (is_location_match cfg (field job_data ''location''))"
    and "case calculate_experience_match description of
           Inl e \<Rightarrow> False | Inr ec \<Rightarrow> er_is_match ec"
    and "si = extract_salary (py_str title @ '' '' @ py_str description)"
    and "res = fst (filter_job fs cfg job_data)"
  shows "((\<not> is_relevant res
             \<and> (reason res = salary_below fs cfg si \<or> reason res = salary_above fs si))
           \<longleftrightarrow> (si_found si \<and> (si_max_salary si < num_val (min_salary cfg)
                               \<or> si_min_salary si > num_val (max_salary cfg))))
       \<and> (\<not> si_found si \<longrightarrow>
            \<not> (\<not> is_relevant res
                 \<and> (reason res = salary_below fs cfg si \<or> reason res = salary_above fs si)))"
proof -
  have res: "res = (case stages fs cfg title description (field job_data ''location'') of
                  Inl e \<Rightarrow> error_result e | Inr r \<Rightarrow> r)"
    using assms(1,2,7) by (simp add: filter_job_fst)
  note s = stages_salary [OF assms(3-6) res]
  show ?thesis
  proof (cases "si_found si \<and> (si_max_salary si < num_val (min_salary cfg)
                               \<or> si_min_salary si > num_val (max_salary cfg))")
    case True
    with s show ?thesis by auto
  next
    case False
    with s have "case select_resume cfg title description of
                   Inl e \<Rightarrow> res = error_result e
                 | Inr f \<Rightarrow> is_relevant res \<and> resume_to_use res = f
                       \<and> reason res = ''Job matches all criteria''" by blast
    then have "is_relevant res
        \<or> (reason res \<noteq> salary_below fs cfg si \<and> reason res \<noteq> salary_above fs si)"
      by (cases "select_resume cfg title description")
         (simp_all add: error_result_def salary_below_def salary_above_def)
    with False show ?thesis by blast
  qed
qed

theorem salary_stage_witness:
  "(case is_relevant_role example_config (field low_salary_job ''title'')
           (field low_salary_job ''description'') of
      Inl e \<Rightarrow> False | Inr rc \<Rightarrow> rr_is_relevant rc)
   \<and> lr_is_match (is_location_match example_config (field low_salary_job ''location''))
   \<and> (case calculate_experience_match (field low_salary_job ''description'') of
         Inl e \<Rightarrow> False | Inr ec \<Rightarrow> er_is_match ec)
   \<and> extract_salary ''QA Test 2 LPA'' = single_salary 2
   \<and> \<not> is_relevant (fst (filter_job one_decimal example_config low_salary_job))
   \<and> reason (fst (filter_job one_decimal example_config low_salary_job))
       = ''Salary 2.0 LPA below minimum 4 LPA''"
proof -
  have t: "field low_salary_job ''title'' = field low_salary_job ''title''"
    and d: "field low_salary_job ''description'' = field low_salary_job ''description''"
    by (rule refl)+
  have h1: "case is_relevant_role example_config (field low_salary_job ''title'')
           (field low_salary_job ''description'') of
      Inl e \<Rightarrow> False | Inr rc \<Rightarrow> rr_is_relevant rc"
    by code_simp
  have h2: "lr_is_match (is_location_match example_config (field low_salary_job ''location''))"
    by code_simp
  have h3: "case calculate_experience_match (field low_salary_job ''description'') of
         Inl e \<Rightarrow> False | Inr ec \<Rightarrow> er_is_match ec"
    by code_simp
  have tx: "py_str (field low_salary_job ''title'') @ '' ''
      @ py_str (field low_salary_job ''description'') = ''QA Test 2 LPA''"
    by code_simp
  have si: "extract_salary ''QA Test 2 LPA'' = single_salary 2"
    by code_simp
  have si': "single_salary 2 = extract_salary (py_str (field low_salary_job ''title'') @ '' ''
      @ py_str (field low_salary_job ''description''))"
    by (simp only: tx si)
  have low: "si_found (single_salary 2)
      \<and> (si_max_salary (single_salary 2) < num_val (min_salary example_config)
         \<or> si_min_salary (single_salary 2) > num_val (max_salary example_config))"
    by (simp add: single_salary_def example_config_def)
  have below: "salary_below one_decimal example_config (single_salary 2)
      = ''Salary 2.0 LPA below minimum 4 LPA''"
    by code_simp
  have above: "salary_above one_decimal (single_salary 2)
      = ''Salary 2.0 LPA above realistic range''"
    by code_simp
  from salary_stage [OF t d h1 h2 h3 si' refl, of one_decimal] low
  have c: "\<not> is_relevant (fst (filter_job one_decimal example_config low_salary_job))
      \<and> (reason (fst (filter_job one_decimal example_config low_salary_job))
            = salary_below one_decimal example_config (single_salary 2)
         \<or> reason (fst (filter_job one_decimal example_config low_salary_job))
            = salary_above one_decimal (single_salary 2))"
    by blast
  have r: "reason (fst (filter_job one_decimal example_config low_salary_job))
      \<noteq> ''Salary 2.0 LPA above realistic range''"
    by code_simp
  from c r below above
  have "reason (fst (filter_job one_decimal example_config low_salary_job))
       = ''Salary 2.0 LPA below minimum 4 LPA''"
    by metis
  with h1 h2 h3 si c show ?thesis by blast
qed

text \<open>
  C6. \<open>select_resume\<close> is a cascade: three automation keywords or two advanced-project
  keywords select the automation file; failing that, two entry-level keywords select the
  entry file; failing that, the general file. A text with automation score 3 and entry
  score 5 selects the automation file.
\<close>

theorem select_resume_cascade:
  assumes "text = job_text title description"
  shows "(automation_score text \<ge> 3 \<or> advanced_score text \<ge> 2
            \<longrightarrow> select_resume cfg title description = resume_file cfg ''qa_automation'')
       \<and> (automation_score text < 3 \<and> advanced_score text < 2 \<and> entry_score text \<ge> 2
            \<longrightarrow> select_resume cfg title description = resume_file cfg ''qa_entry'')
       \<and> (automation_score text < 3 \<and> advanced_score text < 2 \<and> entry_score text < 2
            \<longrightarrow> select_resume cfg title description = resume_file cfg ''qa_general'')
       \<and> (automation_score text = 3 \<and> entry_score text = 5
            \<longrightarrow> select_resume cfg title description = resume_file cfg ''qa_automation'')"
  using assms by (auto simp add: select_resume_def Let_def)

theorem select_resume_cascade_witness:
  "automation_score ''selenium pytest jenkins fresher trainee graduate junior associate'' = 3
   \<and> entry_score ''selenium pytest jenkins fresher trainee graduate junior associate'' = 5
   \<and> select_resume example_config (Str ''Selenium Pytest Jenkins'')
         (Str ''fresher trainee graduate junior associate'') = Inr ''Mani_QA1.pdf''"
proof -
  have t: "''selenium pytest jenkins fresher trainee graduate junior associate''
      = job_text (Str ''Selenium Pytest Jenkins'')
          (Str ''fresher trainee graduate junior associate'')"
    by code_simp
  have a: "automation_score
      ''selenium pytest jenkins fresher trainee graduate junior associate'' = 3"
    by code_simp
  have e: "entry_score
      ''selenium pytest jenkins fresher trainee graduate junior associate'' = 5"
    by code_simp
  have f: "resume_file example_config ''qa_automation'' = Inr ''Mani_QA1.pdf''"
    by (simp add: resume_file_def example_config_def)
  from select_resume_cascade [OF t, of example_config] a e
  have "select_resume example_config (Str ''Selenium Pytest Jenkins'')
         (Str ''fresher trainee graduate junior associate'')
       = resume_file example_config ''qa_automation''"
    by blast
  with a e f show ?thesis by simp
qed

text \<open>
  C7. \<open>filter_job\<close> returns a result for every input. When a stage of the \<open>try\<close> block
  raises, the result is a rejection whose reason is the fixed prefix followed by the text
  of the exception, and its details hold no stage result, not even those of the stages
  that ran before the one that raised.
\<close>

theorem filter_job_catches:
  assumes "fst (filter_job_try fs cfg job_data) = Inl e"
  shows "\<not> is_relevant (fst (filter_job fs cfg job_data))
       \<and> reason (fst (filter_job fs cfg job_data)) = ''Error filtering job: '' @ str_error e
       \<and> details (fst (filter_job fs cfg job_data)) =
           \<lparr>role_check = None, location_check = None, experience_check = None,
            salary_check = None\<rparr>"
  using assms
  by (cases "filter_job_try fs cfg job_data")
     (simp add: filter_job_def error_result_def no_details_def)

theorem filter_job_catches_witness:
  "fst (filter_job_try one_decimal example_config no_description_job)
     = Inl (AttributeError (quoted ''NoneType'' @ '' object has no attribute '' @ quoted ''lower''))
   \<and> \<not> is_relevant (fst (filter_job one_decimal example_config no_description_job))
   \<and> reason (fst (filter_job one_decimal example_config no_description_job))
       = ''Error filtering job: '' @ quoted ''NoneType'' @ '' object has no attribute ''
           @ quoted ''lower''
   \<and> details (fst (filter_job one_decimal example_config no_description_job)) =
           \<lparr>role_check = None, location_check = None, experience_check = None,
            salary_check = None\<rparr>"
proof -
  have h: "fst (filter_job_try one_decimal example_config no_description_job)
     = Inl (AttributeError (quoted ''NoneType'' @ '' object has no attribute '' @ quoted ''lower''))"
    by code_simp
  from filter_job_catches [OF h] h show ?thesis by simp
qed

text \<open>
  C10. \<open>filter_job\<close> only reads its argument: the record after the call is the record
  before it, key by key, and the result is a value of its own.
\<close>

theorem filter_job_leaves_record:
  "snd (filter_job fs cfg job_data) = job_data
   \<and> (\<forall>k. snd (filter_job fs cfg job_data) k = job_data k)"
  by (simp add: filter_job_def filter_job_try_def dict_get_def split: sum.splits)

section \<open>Properties of the constraint checkers\<close>

lemma lower_Remote: "py_lower ''Remote'' = ''remote''"
  by code_simp

lemma find_remote:
  "find (\<lambda>indicator. contains indicator ''remote'') remote_indicators = Some ''remote''"
  by (simp add: remote_indicators_def)

lemma remote_accepted: "lr_is_match (is_location_match cfg (Str ''Remote''))"
  by (simp add: is_location_match_def lower_Remote find_remote Let_def
        del: contains.simps split: option.splits)

text \<open>
  C4. For a location string \<open>s\<close>, \<open>is_location_match\<close> accepts exactly when \<open>s\<close> is empty,
  or a lower-cased target location occurs in the lower-cased \<open>s\<close> (direct), or a term of
  the remote vocabulary does (remote), or a word of a target location does (partial).
  The reason names the first rule that applies, in this order, and the rejection cites
  the location. The location \<open>Remote\<close> is accepted under every configuration.
\<close>

theorem location_policy:
  assumes "l = py_lower s" and "ts = target_locations cfg"
    and "r = is_location_match cfg (Str s)"
    and "direct = (\<exists>t\<in>set ts. contains (py_lower t) l)"
    and "remote = (\<exists>i\<in>set remote_indicators. contains i l)"
    and "partial = (\<exists>t\<in>set ts. \<exists>w\<in>set (py_split (py_lower t)). contains w l)"
  shows "(lr_is_match r \<longleftrightarrow> s = [] \<or> direct \<or> remote \<or> partial)
       \<and> (s = [] \<longrightarrow> lr_reason r = ''No location specified (assuming remote)'')
       \<and> (s \<noteq> [] \<and> direct \<longrightarrow>
            (\<exists>t\<in>set ts. contains (py_lower t) l
                \<and> lr_reason r = ''Matches preferred location: '' @ t))
       \<and> (s \<noteq> [] \<and> \<not> direct \<and> remote \<longrightarrow>
            (\<exists>i\<in>set remote_indicators. contains i l \<and> lr_reason r = ''Remote work: '' @ i))
       \<and> (s \<noteq> [] \<and> \<not> direct \<and> \<not> remote \<and> partial \<longrightarrow>
            (\<exists>t\<in>set ts. (\<exists>w\<in>set (py_split (py_lower t)). contains w l)
                \<and> lr_reason r = ''Partial location match: '' @ t))
       \<and> (s \<noteq> [] \<and> \<not> direct \<and> \<not> remote \<and> \<not> partial \<longrightarrow>
            lr_reason r = ''Location '' @ s @ '' not in preferred list'')
       \<and> lr_is_match (is_location_match cfg (Str ''Remote''))"
proof -
  let ?fd = "find (\<lambda>t. contains (py_lower t) l) ts"
  let ?fr = "find (\<lambda>i. contains i l) remote_indicators"
  let ?fp = "find (\<lambda>t. list_ex (\<lambda>w. contains w l) (py_split (py_lower t))) ts"
  have d: "direct \<longleftrightarrow> ?fd \<noteq> None" using assms(4) by (auto simp: find_None_iff)
  have m: "remote \<longleftrightarrow> ?fr \<noteq> None" using assms(5) by (auto simp: find_None_iff)
  have p: "partial \<longleftrightarrow> ?fp \<noteq> None" using assms(6) by (auto simp: find_None_iff list_ex_iff)
  have dS: "\<And>t. ?fd = Some t \<Longrightarrow> t \<in> set ts \<and> contains (py_lower t) l"
    by (auto simp: find_Some_iff)
  have mS: "\<And>i. ?fr = Some i \<Longrightarrow> i \<in> set remote_indicators \<and> contains i l"
    by (auto simp: find_Some_iff)
  have pS: "\<And>t. ?fp = Some t \<Longrightarrow>
      t \<in> set ts \<and> (\<exists>w\<in>set (py_split (py_lower t)). contains w l)"
    by (auto simp: find_Some_iff list_ex_iff)
  have r: "r =
      (if s = []
       then \<lparr>lr_is_match = True, lr_reason = ''No location specified (assuming remote)''\<rparr>
       else case ?fd of
         Some t \<Rightarrow> \<lparr>lr_is_match = True, lr_reason = ''Matches preferred location: '' @ t\<rparr>
       | None \<Rightarrow> (case ?fr of
           Some i \<Rightarrow> \<lparr>lr_is_match = True, lr_reason = ''Remote work: '' @ i\<rparr>
         | None \<Rightarrow> (case ?fp of
             Some t \<Rightarrow> \<lparr>lr_is_match = True, lr_reason = ''Partial location match: '' @ t\<rparr>
           | None \<Rightarrow> \<lparr>lr_is_match = False,
                       lr_reason = ''Location '' @ s @ '' not in preferred list''\<rparr>)))"
    unfolding assms(1-3) is_location_match_def Let_def
    by (simp del: contains.simps split: option.splits)
  show ?thesis
  proof (cases "s = []")
    case True
    with r show ?thesis by (simp add: remote_accepted)
  next
    case False
    note ne = this
    show ?thesis
    proof (cases ?fd)
      case (Some t)
      with r ne d dS [OF Some] show ?thesis by (auto simp add: remote_accepted)
    next
      case None
      note dn = this
      show ?thesis
      proof (cases ?fr)
        case (Some i)
        with r ne d dn m mS [OF Some] show ?thesis by (auto simp add: remote_accepted)
      next
        case None
        note mn = this
        show ?thesis
        proof (cases ?fp)
          case (Some t)
          with r ne d dn m mn p pS [OF Some] show ?thesis
            by (auto simp add: remote_accepted)
        next
          case None
          with r ne d dn m mn p show ?thesis by (auto simp add: remote_accepted)
        qed
      qed
    qed
  qed
qed

theorem location_policy_witness:
  "\<not> (\<exists>t\<in>set (target_locations example_config).
         contains (py_lower t) (py_lower ''Delhi NCR''))
   \<and> \<not> (\<exists>i\<in>set remote_indicators. contains i (py_lower ''Delhi NCR''))
   \<and> (\<exists>t\<in>set (target_locations example_config).
         \<exists>w\<in>set (py_split (py_lower t)). contains w (py_lower ''Delhi NCR''))
   \<and> lr_is_match (is_location_match example_config (Str ''Delhi NCR''))
   \<and> (\<exists>t\<in>set (target_locations example_config).
         lr_reason (is_location_match example_config (Str ''Delhi NCR''))
           = ''Partial location match: '' @ t)"
proof -
  have ne: "''Delhi NCR'' \<noteq> []" by simp
  have nd: "\<not> (\<exists>t\<in>set (target_locations example_config).
         contains (py_lower t) (py_lower ''Delhi NCR''))"
    by code_simp
  have nr: "\<not> (\<exists>i\<in>set remote_indicators. contains i (py_lower ''Delhi NCR''))"
    by code_simp
  have pa: "\<exists>t\<in>set (target_locations example_config).
         \<exists>w\<in>set (py_split (py_lower t)). contains w (py_lower ''Delhi NCR'')"
    by code_simp
  note p = location_policy [where s = "''Delhi NCR''" and cfg = example_config,
      OF refl refl refl refl refl refl]
  from p nd nr pa have a: "lr_is_match (is_location_match example_config (Str ''Delhi NCR''))"
    by blast
  from p ne nd nr pa have b: "\<exists>t\<in>set (target_locations example_config).
         lr_reason (is_location_match example_config (Str ''Delhi NCR''))
           = ''Partial location match: '' @ t"
    by blast
  from nd nr pa a b show ?thesis by blast
qed






section \<open>Properties of the contact extractor\<close>

lemma star_run_suffix:
  assumes "\<And>st st'. st' \<in> set (f st) \<Longrightarrow> \<exists>p. fst st = p @ fst st'"
  shows "st' \<in> set (star_run n f st) \<Longrightarrow> \<exists>p. fst st = p @ fst st'"
proof (induction n arbitrary: st)
  case 0
  then show ?case by simp
next
  case (Suc n)
  then consider "st' = st"
    | st1 where "st1 \<in> set (f st)" "st' \<in> set (star_run n f st1)"
    by auto
  then show ?case
  proof cases
    case 1
    then show ?thesis by simp
  next
    case 2
    from assms [OF 2(1)] obtain p where p: "fst st = p @ fst st1" by blast
    from Suc.IH [OF 2(2)] obtain q where q: "fst st1 = q @ fst st'" by blast
    from p q have "fst st = (p @ q) @ fst st'" by simp
    then show ?thesis by blast
  qed
qed

lemma run_suffix: "st' \<in> set (run r st) \<Longrightarrow> \<exists>p. fst st = p @ fst st'"
proof (induction r arbitrary: st st')
  case Eps
  then show ?case by simp
next
  case (Sym x)
  then show ?case by (cases "fst st") (auto split: if_splits)
next
  case (Cat r1 r2)
  then obtain st1 where a: "st1 \<in> set (run r1 st)" and b: "st' \<in> set (run r2 st1)"
    by auto
  from Cat.IH(1) [OF a] obtain p where p: "fst st = p @ fst st1" by blast
  from Cat.IH(2) [OF b] obtain q where q: "fst st1 = q @ fst st'" by blast
  from p q have "fst st = (p @ q) @ fst st'" by simp
  then show ?case by blast
next
  case (Opt r)
  from Opt.prems have "st' \<in> set (run r st) \<or> st' = st" by auto
  with Opt.IH [of st' st] show ?case by auto
next
  case (Star r)
  then have "st' \<in> set (star_run (length (fst st)) (run r) st)" by simp
  then show ?case by (rule star_run_suffix [rotated]) (rule Star.IH)
next
  case (Plus r)
  then obtain st1 where a: "st1 \<in> set (run r st)"
    and b: "st' \<in> set (star_run (length (fst st1)) (run r) st1)"
    by auto
  from Plus.IH [OF a] obtain p where p: "fst st = p @ fst st1" by blast
  from b have "\<exists>q. fst st1 = q @ fst st'"
    by (rule star_run_suffix [rotated]) (rule Plus.IH)
  then obtain q where q: "fst st1 = q @ fst st'" by blast
  from p q have "fst st = (p @ q) @ fst st'" by simp
  then show ?case by blast
next
  case (Grp i r)
  then obtain st1 where a: "st1 \<in> set (run r st)" and b: "fst st' = fst st1"
    by auto
  from Grp.IH [OF a] b show ?case by simp
qed

lemma match_at_suffix:
  assumes "match_at r s = Some (s', cs)"
  shows "\<exists>p. s = p @ s'"
proof -
  from assms have "(s', cs) \<in> set (run r (s, []))"
    by (auto simp add: match_at_def split: list.splits)
  from run_suffix [OF this] show ?thesis by simp
qed

lemma re_sub_subset: "set (re_sub r [] s) \<subseteq> set s"
proof (induction r "[] :: string" s rule: re_sub.induct)
  case (1 r s)
  note eq = re_sub.simps [of r "[]" s]
  show ?case
  proof (cases "match_at r s")
    case None
    show ?thesis
    proof (cases s)
      case Nil
      with None eq show ?thesis by simp
    next
      case (Cons c t)
      with None eq 1(1) [OF None Cons] show ?thesis by auto
    qed
  next
    case (Some st)
    obtain s' cs where st: "st = (s', cs)" by (cases st)
    note m = Some [unfolded st]
    from match_at_suffix [OF m] obtain p where p: "s = p @ s'" by blast
    show ?thesis
    proof (cases "length s' < length s")
      case True
      from 1(2) [OF m refl True] p have "set (re_sub r [] s') \<subseteq> set s" by auto
      with eq m True show ?thesis by simp
    next
      case False
      show ?thesis
      proof (cases s)
        case Nil
        with eq m False show ?thesis by simp
      next
        case (Cons c t)
        with eq m False 1(3) [OF m refl False Cons] show ?thesis by auto
      qed
    qed
  qed
qed


lemma lower_char_idem: "py_lower_char (py_lower_char c) = py_lower_char c"
  by (auto simp add: py_lower_char_def code_def Let_def)

lemma lowered_iff: "py_lower s = s \<longleftrightarrow> (\<forall>c\<in>set s. py_lower_char c = c)"
  by (induction s) (auto simp add: py_lower_def)

lemma lowered_lower: "py_lower (py_lower s) = py_lower s"
  by (simp add: py_lower_def lower_char_idem)

lemma lowered_subset: "py_lower s = s \<Longrightarrow> set t \<subseteq> set s \<Longrightarrow> py_lower t = t"
  by (auto simp add: lowered_iff)

lemma lowered_append: "py_lower a = a \<Longrightarrow> py_lower b = b \<Longrightarrow> py_lower (a @ b) = a @ b"
  by (simp add: py_lower_def)

lemma foldl_re_sub_subset:
  "set (foldl (\<lambda>n suffix. re_sub (f suffix) [] n) init xs) \<subseteq> set init"
proof (induction xs arbitrary: init)
  case Nil
  then show ?case by simp
next
  case (Cons x xs)
  from Cons.IH [of "re_sub (f x) [] init"] re_sub_subset [of "f x" init]
  show ?case by auto
qed

lemma py_strip_subset: "set (py_strip s) \<subseteq> set s"
  by (auto simp add: py_strip_def dest!: set_dropWhileD)

lemma clean_company_name_lowered:
  "py_lower (clean_company_name s) = clean_company_name s"
proof -
  have "set (clean_company_name s) \<subseteq> set (py_lower s)"
    unfolding clean_company_name_def Let_def
    by (rule subset_trans [OF py_strip_subset], rule subset_trans [OF re_sub_subset],
        rule subset_trans [OF re_sub_subset], rule foldl_re_sub_subset)
  with lowered_lower show ?thesis by (rule lowered_subset)
qed

lemma py_replace_subset: "set (py_replace old new s) \<subseteq> set s \<union> set new"
proof (induction old new s rule: py_replace.induct)
  case (1 old new)
  then show ?case by simp
next
  case (2 old new c cs)
  show ?case
  proof (cases "old \<noteq> [] \<and> starts_with old (c # cs)")
    case True
    with 2(1) [OF True] set_drop_subset [of "length old" "c # cs"] show ?thesis
      by auto
  next
    case False
    with 2(2) [OF False] show ?thesis by auto
  qed
qed

lemma split_words_subset: "w \<in> set (split_words cur s) \<Longrightarrow> set w \<subseteq> set cur \<union> set s"
proof (induction s arbitrary: cur)
  case Nil
  then show ?case by (auto split: if_splits)
next
  case (Cons c cs)
  show ?case
  proof (cases "is_space c")
    case False
    with Cons.prems Cons.IH [of "cur @ [c]"] show ?thesis by auto
  next
    case True
    with Cons.prems Cons.IH [of "[]"] show ?thesis by (auto split: if_splits)
  qed
qed


lemma unique_loop_bounded:
  assumes "length u < 3" and "distinct (map email u)" and "email ` set u \<subseteq> seen"
  shows "length (unique_loop cs seen u) \<le> 3 \<and> distinct (map email (unique_loop cs seen u))"
  using assms
proof (induction cs arbitrary: seen u)
  case Nil
  then show ?case by simp
next
  case (Cons c cs)
  show ?case
  proof (cases "email c \<notin> seen \<and> is_valid_email (email c)")
    case False
    with Cons.IH [OF Cons.prems] show ?thesis by auto
  next
    case True
    with Cons.prems have d: "distinct (map email (u @ [c]))" by auto
    show ?thesis
    proof (cases "length (u @ [c]) \<ge> 3")
      case full: True
      with True d Cons.prems(1) show ?thesis by simp
    next
      case room: False
      then have l: "length (u @ [c]) < 3" by simp
      from Cons.prems(3) have s: "email ` set (u @ [c]) \<subseteq> insert (email c) seen" by auto
      from Cons.IH [OF l d s] True room show ?thesis by simp
    qed
  qed
qed


lemma unique_loop_members:
  "c \<in> set (unique_loop cs seen u) \<Longrightarrow>
     c \<in> set u \<or> (c \<in> set cs \<and> is_valid_email (email c))"
proof (induction cs arbitrary: seen u)
  case Nil
  then show ?case by simp
next
  case (Cons a cs)
  show ?case
  proof (cases "email a \<notin> seen \<and> is_valid_email (email a)")
    case False
    with Cons.prems have "c \<in> set (unique_loop cs seen u)" by auto
    from Cons.IH [OF this] show ?thesis by auto
  next
    case True
    show ?thesis
    proof (cases "length (u @ [a]) \<ge> 3")
      case full: True
      with True Cons.prems have "c \<in> set (u @ [a])" by simp
      with True show ?thesis by auto
    next
      case room: False
      with True Cons.prems
      have "c \<in> set (unique_loop cs (insert (email a) seen) (u @ [a]))" by simp
      from Cons.IH [OF this] True show ?thesis by auto
    qed
  qed
qed


lemma literal_lowered:
  "py_lower ''.com'' = ''.com''" "py_lower ''.in'' = ''.in''"
  "py_lower ''.co.in'' = ''.co.in''" "py_lower ''.org'' = ''.org''"
  "py_lower ''tech'' = ''tech''" "py_lower ''sol'' = ''sol''" "py_lower ''sys'' = ''sys''"
  "py_lower ''company.com'' = ''company.com''" "py_lower ''hr.'' = ''hr.''"
  "py_lower ''@'' = ''@''"
  by code_simp+

lemma hr_local_lowered:
  "\<forall>p\<in>set [''hr'', ''careers'', ''jobs'', ''recruitment'', ''hiring'', ''talent''].
     py_lower p = p"
  by code_simp

lemma py_replace_lowered:
  assumes "py_lower s = s" and "py_lower new = new"
  shows "py_lower (py_replace old new s) = py_replace old new s"
proof -
  from assms have "py_lower (s @ new) = s @ new" by (rule lowered_append)
  moreover have "set (py_replace old new s) \<subseteq> set (s @ new)"
    using py_replace_subset [of old new s] by simp
  ultimately show ?thesis by (rule lowered_subset)
qed

lemma take_lowered: "py_lower s = s \<Longrightarrow> py_lower (take n s) = take n s"
  by (rule lowered_subset) (auto dest: in_set_takeD)

lemma domains_lowered:
  assumes "py_lower c = c" and "d \<in> set (generate_company_domains c)"
  shows "py_lower d = d"
proof -
  note l = lowered_append literal_lowered take_lowered py_replace_lowered assms(1)
  from assms(2) have "d \<in> set
     (foldl (\<lambda>ds variation.
               if variation \<noteq> c then ds @ [variation @ ''.com'', variation @ ''.in''] else ds)
        (if length c > 8
         then [c @ ''.com'', c @ ''.in'', c @ ''.co.in'', c @ ''.org'']
              @ [take 8 c @ ''.com'', take 8 c @ ''.in'']
         else [c @ ''.com'', c @ ''.in'', c @ ''.co.in'', c @ ''.org''])
        [py_replace ''technologies'' ''tech'' c, py_replace ''solutions'' ''sol'' c,
         py_replace ''systems'' ''sys'' c])"
    by (auto simp add: generate_company_domains_def Let_def split: if_splits
          dest: in_set_takeD)
  then consider x where "d = x @ ''.com'' \<or> d = x @ ''.in'' \<or> d = x @ ''.co.in'' \<or> d = x @ ''.org''"
      "x = c \<or> x = take 8 c \<or> x = py_replace ''technologies'' ''tech'' c
        \<or> x = py_replace ''solutions'' ''sol'' c \<or> x = py_replace ''systems'' ''sys'' c"
    by (auto simp del: py_replace.simps split: if_splits)
  then show ?thesis
  proof cases
    case 1
    from 1(2) have "py_lower x = x" by (auto intro: l)
    with 1(1) show ?thesis by (auto intro: l)
  qed
qed


lemma backslash_not_local: "\<not> (is_alnum backslash \<or> backslash \<in> set ''._%+-'')"
  by code_simp

lemma valid_email_head:
  assumes "is_valid_email e"
  shows "\<exists>c t. e = c # t \<and> (is_alnum c \<or> c \<in> set ''._%+-'')"
proof (rule ccontr)
  assume n: "\<not> ?thesis"
  have "run (Sym (\<lambda>c. is_alnum c \<or> c \<in> set ''._%+-'')) (e, []) = []"
  proof (cases e)
    case Nil
    then show ?thesis by simp
  next
    case (Cons c t)
    with n have "\<not> (is_alnum c \<or> c \<in> set ''._%+-'')" by blast
    with Cons show ?thesis by simp
  qed
  then have "run valid_pattern (e, []) = []"
    by (simp add: valid_pattern_def seq_def local_part_def)
  with assms show False
    by (simp add: is_valid_email_def re_match_whole_def)
qed

lemma email_match_head:
  assumes "match_at email_pattern s = Some st"
  shows "\<exists>t. s = backslash # t"
proof (rule ccontr)
  assume n: "\<not> ?thesis"
  have "run (ch backslash) (s, []) = []"
  proof (cases s)
    case Nil
    then show ?thesis by (simp add: ch_def)
  next
    case (Cons c t)
    with n have "c \<noteq> backslash" by blast
    with Cons show ?thesis by (simp add: ch_def)
  qed
  then have "run email_pattern (s, []) = []"
    by (simp add: email_pattern_def seq_def)
  with assms show False by (simp add: match_at_def)
qed

lemma matches_head:
  assumes "\<And>s st. match_at r s = Some st \<Longrightarrow> \<exists>t. s = b # t"
    and "(m, cs) \<in> set (matches_from r s)"
  shows "m = [] \<or> (\<exists>t. m = b # t)"
  using assms
proof (induction r s rule: matches_from.induct)
  case (1 r s)
  note eq = matches_from.simps [of r s]
  note h = "1.prems"(1)
  note mem = "1.prems"(2)
  show ?case
  proof (cases "match_at r s")
    case None
    show ?thesis
    proof (cases s)
      case Nil
      with None eq mem show ?thesis by simp
    next
      case (Cons c t)
      with None eq mem have "(m, cs) \<in> set (matches_from r t)" by simp
      from "1.IH"(1) [OF None Cons h this] show ?thesis .
    qed
  next
    case (Some st)
    obtain s' cs' where st: "st = (s', cs')" by (cases st)
    note ma = Some [unfolded st]
    from h [OF ma] obtain t where t: "s = b # t" by blast
    show ?thesis
    proof (cases "length s' < length s")
      case True
      with eq ma mem
      consider "m = take (length s - length s') s"
        | "(m, cs) \<in> set (matches_from r s')"
        by auto
      then show ?thesis
      proof cases
        case 1
        from True obtain k where "length s - length s' = Suc k"
          by (cases "length s - length s'") auto
        with 1 t show ?thesis by simp
      next
        case 2
        from "1.IH"(2) [OF ma refl True h 2] show ?thesis .
      qed
    next
      case False
      with eq ma mem t
      consider "m = []" | "(m, cs) \<in> set (matches_from r t)"
        by auto
      then show ?thesis
      proof cases
        case 1
        then show ?thesis by simp
      next
        case 2
        from "1.IH"(3) [OF ma refl False t h 2] show ?thesis .
      qed
    qed
  qed
qed

lemma found_texts_invalid:
  assumes "e \<in> set (findall_texts email_pattern t)"
  shows "\<not> is_valid_email e"
proof
  assume v: "is_valid_email e"
  from assms obtain cs where mem: "(e, cs) \<in> set (matches_from email_pattern t)"
    by (auto simp add: findall_texts_def)
  have "e = [] \<or> (\<exists>u. e = backslash # u)"
    by (rule matches_head [where r = email_pattern and b = backslash, OF _ mem])
       (rule email_match_head)
  moreover from valid_email_head [OF v] obtain c u
    where "e = c # u" and "is_alnum c \<or> c \<in> set ''._%+-''"
    by blast
  ultimately have "is_alnum backslash \<or> backslash \<in> set ''._%+-''" by auto
  with backslash_not_local show False by blast
qed

lemma gathered_cases:
  assumes "c \<in> set (fst (gather_contacts job_data cname))"
  shows "(\<exists>d\<in>set (generate_company_domains (clean_company_name cname)).
            email c \<in> set (hr_patterns d))
       \<or> (\<exists>es. extract_emails_from_text (field job_data ''description'') = Inr es
              \<and> email c \<in> set es)
       \<or> (\<exists>l w ws. field job_data ''location'' = Str l \<and> py_split (py_lower l) = w # ws
              \<and> email c = ''hr.'' @ w @ ''@''
                   @ (case generate_company_domains (clean_company_name cname) of
                        [] \<Rightarrow> ''company.com'' | d # _ \<Rightarrow> d))"
proof (cases "extract_emails_from_text (field job_data ''description'')")
  case (Inl err)
  with assms show ?thesis
    by (auto simp add: gather_contacts_def Let_def)
next
  case (Inr es)
  with assms show ?thesis
    by (auto simp add: gather_contacts_def Let_def simp del: contains.simps
          split: if_splits pyval.splits list.splits)
qed

lemma hr_patterns_lowered:
  assumes "py_lower d = d" and "e \<in> set (hr_patterns d)"
  shows "py_lower e = e"
proof -
  from assms(2)
  have "e \<in> (\<lambda>p. p @ ''@'' @ d)
      ` set [''hr'', ''careers'', ''jobs'', ''recruitment'', ''hiring'', ''talent'']"
    unfolding hr_patterns_def set_map .
  then obtain p
    where e: "e = p @ ''@'' @ d"
      and p: "p \<in> set [''hr'', ''careers'', ''jobs'', ''recruitment'', ''hiring'', ''talent'']"
    by (rule imageE)
  from p hr_local_lowered have pl: "py_lower p = p" by blast
  have "py_lower (p @ ''@'' @ d) = p @ ''@'' @ d"
    by (intro lowered_append pl literal_lowered assms(1))
  with e show ?thesis by (simp only:)
qed

lemma gathered_valid_lowered:
  assumes "c \<in> set (fst (gather_contacts job_data cname))" and "is_valid_email (email c)"
  shows "py_lower (email c) = email c"
proof -
  let ?ds = "generate_company_domains (clean_company_name cname)"
  have dl: "py_lower d = d" if "d \<in> set ?ds" for d
    using clean_company_name_lowered that by (rule domains_lowered)
  from gathered_cases [OF assms(1)] consider
      d where "d \<in> set ?ds" "email c \<in> set (hr_patterns d)"
    | es where "extract_emails_from_text (field job_data ''description'') = Inr es"
        "email c \<in> set es"
    | l w ws where "py_split (py_lower l) = w # ws"
        "email c = ''hr.'' @ w @ ''@''
           @ (case ?ds of [] \<Rightarrow> ''company.com'' | d # _ \<Rightarrow> d)"
    by blast
  then show ?thesis
  proof cases
    case 1
    from dl [OF 1(1)] 1(2) show ?thesis by (rule hr_patterns_lowered)
  next
    case 2
    then have "email c \<in> set (findall_texts email_pattern
        (case field job_data ''description'' of Str t \<Rightarrow> t | NoneV \<Rightarrow> []))"
      by (auto simp add: extract_emails_from_text_def split: pyval.splits)
    from found_texts_invalid [OF this] assms(2) show ?thesis by blast
  next
    case 3
    from 3(1) have "w \<in> set (split_words [] (py_lower l))"
      by (simp add: py_split_def)
    from split_words_subset [OF this] have "set w \<subseteq> set (py_lower l)" by simp
    with lowered_lower have w: "py_lower w = w" by (rule lowered_subset)
    have t: "py_lower (case ?ds of [] \<Rightarrow> ''company.com'' | d # _ \<Rightarrow> d)
        = (case ?ds of [] \<Rightarrow> ''company.com'' | d # _ \<Rightarrow> d)"
      by (cases ?ds) (simp_all add: literal_lowered dl)
    have "py_lower (''hr.'' @ w @ ''@''
          @ (case ?ds of [] \<Rightarrow> ''company.com'' | d # _ \<Rightarrow> d))
        = ''hr.'' @ w @ ''@'' @ (case ?ds of [] \<Rightarrow> ''company.com'' | d # _ \<Rightarrow> d)"
      by (intro lowered_append literal_lowered w t)
    with 3(2) show ?thesis by (simp only:)
  qed
qed

text \<open>
  C8. For every job record, \<open>extract_hr_contacts\<close> returns at most three contacts, and no
  two of them carry the same address, neither as the addresses are stored (the comparison
  the source makes) nor after lower-casing them.
\<close>

theorem contacts_bounded_distinct:
  "length (extract_hr_contacts job_data) \<le> 3
   \<and> distinct (map email (extract_hr_contacts job_data))
   \<and> distinct (map (\<lambda>c. py_lower (email c)) (extract_hr_contacts job_data))"
proof (cases "truthy (field job_data ''company'')")
  case False
  then show ?thesis by (simp add: extract_hr_contacts_def)
next
  case True
  let ?cs = "fst (gather_contacts job_data (py_str (field job_data ''company'')))"
  have r: "extract_hr_contacts job_data = unique_loop ?cs {} []"
    using True by (simp add: extract_hr_contacts_def Let_def)
  have b: "length (unique_loop ?cs {} []) \<le> 3
      \<and> distinct (map email (unique_loop ?cs {} []))"
    by (rule unique_loop_bounded) simp_all
  have low: "py_lower (email c) = email c" if "c \<in> set (unique_loop ?cs {} [])" for c
  proof -
    from unique_loop_members [OF that] have "c \<in> set ?cs" "is_valid_email (email c)"
      by auto
    then show ?thesis by (rule gathered_valid_lowered)
  qed
  have m: "map (\<lambda>c. py_lower (email c)) (unique_loop ?cs {} [])
      = map email (unique_loop ?cs {} [])"
    by (rule map_cong [OF refl]) (rule low)
  from b show ?thesis unfolding r m by simp
qed





end
